theory Spec2Isabelle
  imports Main
begin

section \<open>The browser and the HTTP layer\<close>

text \<open>
  The session code of the dashboard lives in three places: the axios instance of
  \<^verbatim>\<open>utils/api.ts\<close> (two interceptors, \<^verbatim>\<open>setAuthToken\<close> and the four helpers),
  the React components that log in and out (\<^verbatim>\<open>AuthProvider\<close>, the login page, the
  header) and the route guard \<^verbatim>\<open>ProtectedLayout\<close>. All of it works on ambient
  mutable state: \<^verbatim>\<open>localStorage\<close>, \<^verbatim>\<open>window.location\<close>, the default headers of the
  axios instance, the router. The model passes that state explicitly, as the record
  \<open>world\<close>, and every function returns the world it leaves behind.

  Strings are lists of 8-bit characters. Web Storage is a map from keys to strings:
  \<^verbatim>\<open>getItem\<close> is the lookup (\<open>None\<close> for JavaScript's \<^verbatim>\<open>null\<close>).
\<close>

type_synonym storage = "string \<rightharpoonup> string"

abbreviation (input) getItem :: "string \<Rightarrow> storage \<Rightarrow> string option" where
  "getItem k st \<equiv> st k"

abbreviation (input) setItem :: "string \<Rightarrow> string \<Rightarrow> storage \<Rightarrow> storage" where
  "setItem k v st \<equiv> st(k \<mapsto> v)"

abbreviation (input) removeItem :: "string \<Rightarrow> storage \<Rightarrow> storage" where
  "removeItem k st \<equiv> st(k := None)"

abbreviation (input) storage_clear :: "storage \<Rightarrow> storage" where
  "storage_clear st \<equiv> Map.empty"

text \<open>
  \<^verbatim>\<open>if (token)\<close> and \<^verbatim>\<open>Boolean(token)\<close> on a \<^verbatim>\<open>string | null\<close>: \<^verbatim>\<open>null\<close> and the empty
  string are falsy, every other string is truthy.
\<close>

fun truthy :: "string option \<Rightarrow> bool" where
  "truthy None = False"
| "truthy (Some s) = (s \<noteq> [])"

text \<open>Plain objects with string fields: the query of a GET, the body of a POST or PUT.\<close>

type_synonym obj = "(string \<times> string) list"

type_synonym headers = "string \<rightharpoonup> string"

datatype http_method = GET | POST | PUT | DELETE

text \<open>The request configuration axios hands to its adapter, after the interceptors.\<close>

record request =
  req_method :: http_method
  baseURL :: string
  url :: string
  params :: "obj option"
  req_data :: "obj option"
  headers :: headers

record 'a AxiosResponse =
  status :: int
  data :: 'a

text \<open>
  An \<^verbatim>\<open>AxiosError\<close>: \<^verbatim>\<open>response\<close> is absent when no reply arrived (network failure,
  timeout). Of the error body only \<^verbatim>\<open>data.message\<close> is ever read by the code.
\<close>

record AxiosError =
  message :: string
  response :: "string option AxiosResponse option"

text \<open>\<^verbatim>\<open>error.response?.status\<close>\<close>

definition response_status :: "AxiosError \<Rightarrow> int option" where
  "response_status error = map_option status (response error)"

text \<open>
  What the code does to the outside, in order: requests handed to the network, console
  output, navigations (hard ones through \<^verbatim>\<open>window.location\<close>, soft ones through the
  Next.js router), toasts and timers. A navigation is recorded, not performed: the
  path changes when the browser commits it, after the code modelled here has run.
\<close>

datatype event =
    Dispatch request
  | ConsoleError string
  | LocationReplace string
  | RouterPush string
  | RouterReplace string
  | ToastError string
  | ToastSuccess string
  | SetTimeout nat event

record world =
  has_window :: bool
  pathname :: string
  localStorage :: storage
  sessionStorage :: storage
  navigator_onLine :: bool
  defaults_headers_common :: headers
  trace :: "event list"

text \<open>
  \<open>has_window\<close> is the value of \<^verbatim>\<open>typeof window !== "undefined"\<close>, which
  \<^verbatim>\<open>api.ts\<close> and the route guard test before they touch local storage. The handlers
  and effects of the components touch it without the test: React runs them in the
  browser only, and the results about them are stated for worlds with a window.
  \<open>defaults_headers_common\<close> is \<^verbatim>\<open>api.defaults.headers.common\<close>. The remote API is
  opaque: an \<open>adapter\<close> maps the request that leaves the client to what axios makes of
  the reply, an \<^verbatim>\<open>AxiosError\<close> or a response.
\<close>

type_synonym 'a adapter = "request \<Rightarrow> AxiosError + 'a AxiosResponse"

definition emit :: "event \<Rightarrow> world \<Rightarrow> world" where
  "emit e w = w\<lparr>trace := trace w @ [e]\<rparr>"

fun requests_of :: "event list \<Rightarrow> request list" where
  "requests_of [] = []"
| "requests_of (Dispatch q # es) = q # requests_of es"
| "requests_of (e # es) = requests_of es"

fun is_toast :: "event \<Rightarrow> bool" where
  "is_toast (ToastError m) = True"
| "is_toast (ToastSuccess m) = True"
| "is_toast _ = False"

fun is_navigation :: "event \<Rightarrow> bool" where
  "is_navigation (LocationReplace p) = True"
| "is_navigation (RouterPush p) = True"
| "is_navigation (RouterReplace p) = True"
| "is_navigation _ = False"

text \<open>The requests sent so far, the navigations issued so far, the toasts shown so far.\<close>

definition dispatched :: "world \<Rightarrow> request list" where
  "dispatched w = requests_of (trace w)"

definition toasts :: "world \<Rightarrow> event list" where
  "toasts w = filter is_toast (trace w)"

definition navigations :: "world \<Rightarrow> event list" where
  "navigations w = filter is_navigation (trace w)"

subsection \<open>utils/api.ts\<close>

definition API_BASE_URL :: string where
  "API_BASE_URL = ''https://osheenoraclebackend-1.onrender.com/api''"

text \<open>The headers given to \<^verbatim>\<open>axios.create\<close>.\<close>

definition instance_headers :: headers where
  "instance_headers = [''Content-Type'' \<mapsto> ''application/json'']"

text \<open>
  The request interceptor: in the browser, a truthy stored token is written into the
  \<^verbatim>\<open>Authorization\<close> header of this request's own configuration.
\<close>

definition request_interceptor :: "world \<Rightarrow> request \<Rightarrow> request" where
  "request_interceptor w config =
     (if has_window w then
        (case getItem ''token'' (localStorage w) of
           Some token \<Rightarrow>
             if truthy (Some token)
             then config\<lparr>headers := (headers config)(''Authorization'' \<mapsto> ''Bearer '' @ token)\<rparr>
             else config
         | None \<Rightarrow> config)
      else config)"

text \<open>
  The rejected branch of the response interceptor. It changes the world and then
  rejects with the error it was given: the caller of \<open>response_rejected\<close> passes that
  same error on.
\<close>

definition response_rejected :: "AxiosError \<Rightarrow> world \<Rightarrow> world" where
  "response_rejected error w =
     (if response_status error = Some 401 then
        (if has_window w then
           (let currentPath = pathname w in
            if currentPath \<noteq> ''/login'' then
              emit (LocationReplace ''/login'')
                (w\<lparr>localStorage := removeItem ''user'' (removeItem ''token'' (localStorage w))\<rparr>)
            else w)
         else w)
      else w)"

definition setAuthToken :: "string option \<Rightarrow> world \<Rightarrow> world" where
  "setAuthToken token w =
     (if truthy token then
        (case token of
           Some t \<Rightarrow> w\<lparr>defaults_headers_common :=
                        (defaults_headers_common w)(''Authorization'' \<mapsto> ''Bearer '' @ t)\<rparr>
         | None \<Rightarrow> w)
      else w\<lparr>defaults_headers_common := (defaults_headers_common w)(''Authorization'' := None)\<rparr>)"

text \<open>
  One call of the axios instance (\<^verbatim>\<open>api.get\<close>, \<^verbatim>\<open>api.post\<close>, ...). Axios merges the
  common default headers, the instance headers and the headers of the call (later
  ones win), runs the request interceptor, hands the request to the adapter and runs
  the response interceptor on the outcome. The fulfilled branch of the response
  interceptor is the identity.
\<close>

definition prepare ::
  "world \<Rightarrow> http_method \<Rightarrow> string \<Rightarrow> obj option \<Rightarrow> obj option \<Rightarrow> headers \<Rightarrow> request" where
  "prepare w m endpoint ps body hs =
     request_interceptor w
       \<lparr>req_method = m, baseURL = API_BASE_URL, url = endpoint, params = ps, req_data = body,
        headers = (defaults_headers_common w ++ instance_headers) ++ hs\<rparr>"

definition api_request ::
  "'a adapter \<Rightarrow> http_method \<Rightarrow> string \<Rightarrow> obj option \<Rightarrow> obj option \<Rightarrow> headers \<Rightarrow> world
     \<Rightarrow> (AxiosError + 'a AxiosResponse) \<times> world" where
  "api_request adapter m endpoint ps body hs w =
     (let config = prepare w m endpoint ps body hs;
          w1 = emit (Dispatch config) w
      in case adapter config of
           Inr resp \<Rightarrow> (Inr resp, w1)
         | Inl error \<Rightarrow> (Inl error, response_rejected error w1))"

text \<open>
  The helpers. An omitted optional argument is \<open>None\<close>; \<^verbatim>\<open>noCache\<close> defaults to
  \<^verbatim>\<open>true\<close>, and \<open>cache_headers\<close> is the \<^verbatim>\<open>headers\<close> option \<^verbatim>\<open>fetchData\<close> passes
  (no header for \<^verbatim>\<open>undefined\<close>). Each helper returns the response body, or logs and
  rethrows the error it caught. A call is modelled as one step: the request is built
  and sent when the helper is called, and the world it returns is the one left when
  the reply has been handled.
\<close>

definition cache_headers :: "bool option \<Rightarrow> headers" where
  "cache_headers noCache_arg =
     (let noCache = (case noCache_arg of None \<Rightarrow> True | Some b \<Rightarrow> b)
      in if noCache then [''Cache-Control'' \<mapsto> ''no-cache''] else Map.empty)"

definition fetchData ::
  "'a adapter \<Rightarrow> string \<Rightarrow> obj option \<Rightarrow> bool option \<Rightarrow> world \<Rightarrow> (AxiosError + 'a) \<times> world" where
  "fetchData adapter endpoint ps noCache_arg w =
     (let hs = cache_headers noCache_arg
      in case api_request adapter GET endpoint ps None hs w of
           (Inr resp, w1) \<Rightarrow> (Inr (data resp), w1)
         | (Inl err, w1) \<Rightarrow> (Inl err, emit (ConsoleError ''GET Error:'') w1))"

definition postData ::
  "'a adapter \<Rightarrow> string \<Rightarrow> obj \<Rightarrow> world \<Rightarrow> (AxiosError + 'a) \<times> world" where
  "postData adapter endpoint body w =
     (case api_request adapter POST endpoint None (Some body) Map.empty w of
        (Inr resp, w1) \<Rightarrow> (Inr (data resp), w1)
      | (Inl err, w1) \<Rightarrow> (Inl err, emit (ConsoleError ''POST Error:'') w1))"

definition putData ::
  "'a adapter \<Rightarrow> string \<Rightarrow> obj \<Rightarrow> world \<Rightarrow> (AxiosError + 'a) \<times> world" where
  "putData adapter endpoint body w =
     (case api_request adapter PUT endpoint None (Some body) Map.empty w of
        (Inr resp, w1) \<Rightarrow> (Inr (data resp), w1)
      | (Inl err, w1) \<Rightarrow> (Inl err, emit (ConsoleError ''PUT Error:'') w1))"

definition deleteData ::
  "'a adapter \<Rightarrow> string \<Rightarrow> world \<Rightarrow> (AxiosError + 'a) \<times> world" where
  "deleteData adapter endpoint w =
     (case api_request adapter DELETE endpoint None None Map.empty w of
        (Inr resp, w1) \<Rightarrow> (Inr (data resp), w1)
      | (Inl err, w1) \<Rightarrow> (Inl err, emit (ConsoleError ''DELETE Error:'') w1))"

text \<open>
  The condition under which the response interceptor ends the session: the reply has
  status 401, the code runs in the browser, and the page is not the login page.
\<close>

definition session_expired :: "AxiosError \<Rightarrow> world \<Rightarrow> bool" where
  "session_expired error w \<longleftrightarrow>
     response_status error = Some 401 \<and> has_window w \<and> pathname w \<noteq> ''/login''"

text \<open>The \<^verbatim>\<open>Authorization\<close> header a request carries.\<close>

definition authorization :: "request \<Rightarrow> string option" where
  "authorization q = headers q ''Authorization''"


section \<open>The route guard\<close>

text \<open>
  \<^verbatim>\<open>ProtectedLayout\<close> derives \<^verbatim>\<open>isAuthenticated\<close> from local storage while it
  renders, returns \<^verbatim>\<open>null\<close> (\<open>None\<close>) or its children, and navigates in an effect.
\<close>

definition ProtectedLayout_token :: "world \<Rightarrow> string option" where
  "ProtectedLayout_token w =
     (if has_window w then getItem ''token'' (localStorage w) else None)"

definition isAuthenticated :: "world \<Rightarrow> bool" where
  "isAuthenticated w = truthy (ProtectedLayout_token w)"

definition ProtectedLayout_effect :: "world \<Rightarrow> world" where
  "ProtectedLayout_effect w =
     (if \<not> isAuthenticated w then emit (RouterReplace ''/login'') w else w)"

definition ProtectedLayout_render :: "'c \<Rightarrow> world \<Rightarrow> 'c option" where
  "ProtectedLayout_render children w =
     (if \<not> isAuthenticated w then None else Some children)"

text \<open>\<^verbatim>\<open>next.config.ts\<close> switches React's strict mode on.\<close>

definition reactStrictMode :: bool where
  "reactStrictMode = True"

text \<open>
  Mounting the component is one render followed by the runs of its effect that React
  makes: none in a server render, where there is no window; one in the browser; two in
  the browser when strict mode is on and the build is a development build, where React
  runs every effect of a fresh mount a second time. \<open>development\<close> tells the build.
\<close>

definition ProtectedLayout_mount :: "bool \<Rightarrow> 'c \<Rightarrow> world \<Rightarrow> 'c option \<times> world" where
  "ProtectedLayout_mount development children w =
     (ProtectedLayout_render children w,
      if has_window w then
        (if reactStrictMode \<and> development
         then ProtectedLayout_effect (ProtectedLayout_effect w)
         else ProtectedLayout_effect w)
      else w)"

section \<open>The session controller\<close>

subsection \<open>AuthProvider\<close>

record User =
  user_id :: string
  user_name :: string
  user_email :: string
  user_role :: string

record LoginResponse =
  token :: string
  user :: User

text \<open>The React state of the provider.\<close>

record AuthState =
  auth_user :: "User option"
  auth_token :: "string option"
  isLoading :: bool

text \<open>
  \<^verbatim>\<open>login\<close> is an \<^verbatim>\<open>async\<close> function of type \<^verbatim>\<open>Promise<void>\<close>: it resolves with
  no value or rejects with the error of \<^verbatim>\<open>postData\<close>. \<^verbatim>\<open>JSON.stringify\<close> is the
  parameter \<open>stringify\<close>.
\<close>

definition login ::
  "LoginResponse adapter \<Rightarrow> (User \<Rightarrow> string) \<Rightarrow> string \<Rightarrow> string \<Rightarrow> AuthState \<times> world
     \<Rightarrow> (AxiosError + unit) \<times> AuthState \<times> world" where
  "login adapter stringify email password aw =
     (case aw of (a, w) \<Rightarrow>
        let a1 = a\<lparr>isLoading := True\<rparr> in
        case postData adapter ''/auth/login'' [(''email'', email), (''password'', password)] w of
          (Inr resp, w1) \<Rightarrow>
            let w2 = w1\<lparr>localStorage := setItem ''token'' (token resp) (localStorage w1)\<rparr>;
                w3 = w2\<lparr>localStorage := setItem ''user'' (stringify (user resp)) (localStorage w2)\<rparr>;
                a2 = a1\<lparr>auth_user := Some (user resp)\<rparr>;
                a3 = a2\<lparr>auth_token := Some (token resp)\<rparr>;
                w4 = setAuthToken (Some (token resp)) w3
            in (Inr (), a3\<lparr>isLoading := False\<rparr>, w4)
        | (Inl err, w1) \<Rightarrow> (Inl err, a1\<lparr>isLoading := False\<rparr>, w1))"

definition logout :: "AuthState \<times> world \<Rightarrow> AuthState \<times> world" where
  "logout aw =
     (case aw of (a, w) \<Rightarrow>
        let w1 = w\<lparr>localStorage := removeItem ''token'' (localStorage w)\<rparr>;
            w2 = w1\<lparr>localStorage := removeItem ''user'' (localStorage w1)\<rparr>;
            a1 = a\<lparr>auth_user := None\<rparr>;
            a2 = a1\<lparr>auth_token := None\<rparr>;
            w3 = setAuthToken None w2
        in (a2, emit (RouterPush ''/login'') w3))"

subsection \<open>The login page\<close>

text \<open>
  The form validates with \<^verbatim>\<open>trim()\<close> and the regular expression
  \<^verbatim>\<open>/^[^\s@]+@[^\s@]+\.[^\s@]+$/\<close>. Regular expressions are a datatype, matched by
  derivatives; the pattern is anchored at both ends, so \<^verbatim>\<open>test\<close> matches the whole
  string. \<open>is_space\<close> is the class \<^verbatim>\<open>\s\<close> (and the characters \<^verbatim>\<open>trim\<close> strips) on
  8-bit characters: tab, line feed, vertical tab, form feed, carriage return, space
  and the no-break space.
\<close>

definition is_space :: "char \<Rightarrow> bool" where
  "is_space c \<longleftrightarrow> (of_char c :: nat) \<in> {9, 10, 11, 12, 13, 32, 160}"

definition trim :: "string \<Rightarrow> string" where
  "trim s = rev (dropWhile is_space (rev (dropWhile is_space s)))"

datatype rx = Never | Empty | Sym "char \<Rightarrow> bool" | Alt rx rx | Seq rx rx | Star rx

fun nullable :: "rx \<Rightarrow> bool" where
  "nullable Never = False"
| "nullable Empty = True"
| "nullable (Sym p) = False"
| "nullable (Alt r s) = (nullable r \<or> nullable s)"
| "nullable (Seq r s) = (nullable r \<and> nullable s)"
| "nullable (Star r) = True"

fun deriv :: "char \<Rightarrow> rx \<Rightarrow> rx" where
  "deriv c Never = Never"
| "deriv c Empty = Never"
| "deriv c (Sym p) = (if p c then Empty else Never)"
| "deriv c (Alt r s) = Alt (deriv c r) (deriv c s)"
| "deriv c (Seq r s) =
     (if nullable r then Alt (Seq (deriv c r) s) (deriv c s) else Seq (deriv c r) s)"
| "deriv c (Star r) = Seq (deriv c r) (Star r)"

fun regex_test :: "rx \<Rightarrow> string \<Rightarrow> bool" where
  "regex_test r [] = nullable r"
| "regex_test r (c # cs) = regex_test (deriv c r) cs"

definition one_or_more :: "rx \<Rightarrow> rx" where
  "one_or_more r = Seq r (Star r)"

definition not_space_at :: "char \<Rightarrow> bool" where
  "not_space_at c \<longleftrightarrow> \<not> is_space c \<and> c \<noteq> CHR ''@''"

definition emailRegex :: rx where
  "emailRegex =
     Seq (one_or_more (Sym not_space_at))
       (Seq (Sym (\<lambda>c. c = CHR ''@''))
          (Seq (one_or_more (Sym not_space_at))
             (Seq (Sym (\<lambda>c. c = CHR ''.''))
                (one_or_more (Sym not_space_at)))))"

text \<open>The words a regular expression denotes, to say what \<open>regex_test\<close> decides.\<close>

inductive_set star :: "string set \<Rightarrow> string set" for A :: "string set" where
  star_nil: "[] \<in> star A"
| star_app: "u \<in> A \<Longrightarrow> v \<in> star A \<Longrightarrow> u @ v \<in> star A"

fun lang :: "rx \<Rightarrow> string set" where
  "lang Never = {}"
| "lang Empty = {[]}"
| "lang (Sym p) = {[c] | c. p c}"
| "lang (Alt r s) = lang r \<union> lang s"
| "lang (Seq r s) = {u @ v | u v. u \<in> lang r \<and> v \<in> lang s}"
| "lang (Star r) = star (lang r)"

text \<open>One of the three parts of an address: not empty, no white space, no \<open>@\<close>.\<close>

definition email_part :: "string \<Rightarrow> bool" where
  "email_part s \<longleftrightarrow> s \<noteq> [] \<and> (\<forall>c \<in> set s. \<not> is_space c \<and> c \<noteq> CHR ''@'')"

record FormData =
  email :: string
  password :: string

record LoginPage =
  formData :: FormData
  loading :: bool

text \<open>The message of the toast after a failed login, by the source's case order.\<close>

definition login_error_message :: "AxiosError \<Rightarrow> world \<Rightarrow> string" where
  "login_error_message err w =
     (if response_status err = Some 401 then ''Invalid email or password''
      else if response_status err = Some 500 then ''Server error. Please try again later.''
      else if \<not> navigator_onLine w then ''No internet connection''
      else (case response err of
              Some r \<Rightarrow>
                (case data r of
                   Some m \<Rightarrow> if m \<noteq> [] then m else ''Login failed. Please try again.''
                 | None \<Rightarrow> ''Login failed. Please try again.'')
            | None \<Rightarrow> ''Login failed. Please try again.''))"

text \<open>
  \<^verbatim>\<open>handleSubmit\<close> of the login page. \<open>isMounted\<close> is the value of
  \<^verbatim>\<open>isMounted.current\<close> when the handler resumes after the request. The redirect to
  the dashboard is left to a timer of one second.
\<close>

definition handleSubmit ::
  "LoginResponse adapter \<Rightarrow> (User \<Rightarrow> string) \<Rightarrow> bool \<Rightarrow> LoginPage \<times> world
     \<Rightarrow> LoginPage \<times> world" where
  "handleSubmit adapter stringify isMounted pw =
     (case pw of (p, w) \<Rightarrow>
        if loading p then (p, w)
        else if trim (email (formData p)) = [] \<or> trim (password (formData p)) = [] then
          (p, emit (ToastError ''Please fill in all fields'') w)
        else if \<not> regex_test emailRegex (email (formData p)) then
          (p, emit (ToastError ''Please enter a valid email address'') w)
        else
          let p1 = p\<lparr>loading := True\<rparr> in
          case postData adapter ''/auth/login''
                 [(''email'', email (formData p)), (''password'', password (formData p))] w of
            (Inr resp, w1) \<Rightarrow>
              if \<not> isMounted then (p1, w1)
              else
                let w2 = w1\<lparr>localStorage := setItem ''token'' (token resp) (localStorage w1)\<rparr>;
                    w3 = w2\<lparr>localStorage := setItem ''user'' (stringify (user resp)) (localStorage w2)\<rparr>;
                    w4 = setAuthToken (Some (token resp)) w3;
                    w5 = emit (ToastSuccess ''Login successful! Redirecting...'') w4;
                    w6 = emit (SetTimeout 1000 (RouterPush ''/dashboard'')) w5
                in (p1\<lparr>loading := False\<rparr>, w6)
          | (Inl err, w1) \<Rightarrow>
              if \<not> isMounted then (p1, w1)
              else
                let w2 = emit (ConsoleError ''Login error:'') w1;
                    w3 = emit (ToastError (login_error_message err w2)) w2
                in (p1\<lparr>loading := False\<rparr>, w3))"

section \<open>The header and the sidebar\<close>

record UserData =
  ud_id :: string
  ud_name :: string
  ud_email :: string
  ud_phone :: "string option"
  ud_avatar :: "string option"
  ud_role :: "string option"
  ud_createdAt :: string
  ud_updatedAt :: string

text \<open>Of the header's state only the profile and its loading flag matter here.\<close>

record Header =
  userData :: "UserData option"
  header_loading :: bool

text \<open>\<open>now\<close> is \<^verbatim>\<open>new Date().toISOString()\<close>.\<close>

definition header_default_user :: "string \<Rightarrow> UserData" where
  "header_default_user now =
     \<lparr>ud_id = ''default-id'', ud_name = ''Admin User'', ud_email = ''admin@astro.com'',
      ud_phone = None, ud_avatar = None, ud_role = Some ''Admin'',
      ud_createdAt = now, ud_updatedAt = now\<rparr>"

definition header_fetchUserProfile ::
  "UserData adapter \<Rightarrow> string \<Rightarrow> Header \<times> world \<Rightarrow> Header \<times> world" where
  "header_fetchUserProfile adapter now hw =
     (case hw of (h, w) \<Rightarrow>
        let h1 = h\<lparr>header_loading := True\<rparr> in
        case fetchData adapter ''/auth/profile'' None None w of
          (Inr d, w1) \<Rightarrow> (h1\<lparr>userData := Some d, header_loading := False\<rparr>, w1)
        | (Inl error, w1) \<Rightarrow>
            let w2 = emit (ConsoleError ''Failed to fetch user profile:'') w1;
                w3 = (if response_status error = Some 401
                      then emit (LocationReplace ''/login'')
                             (w2\<lparr>localStorage := storage_clear (localStorage w2)\<rparr>)
                      else w2)
            in (h1\<lparr>userData := Some (header_default_user now), header_loading := False\<rparr>, w3))"

text \<open>
  \<^verbatim>\<open>handleLogout\<close> of the header: the logout endpoint is reached through
  \<^verbatim>\<open>fetchData\<close>, with \<^verbatim>\<open>{ method: 'POST' }\<close> as its query; the \<^verbatim>\<open>finally\<close> block runs
  on both paths.
\<close>

definition header_handleLogout :: "'a adapter \<Rightarrow> world \<Rightarrow> world" where
  "header_handleLogout adapter w =
     (let w1 = (case fetchData adapter ''/auth/logout'' (Some [(''method'', ''POST'')]) None w of
                  (Inr d, w') \<Rightarrow> w'
                | (Inl error, w') \<Rightarrow> emit (ConsoleError ''Logout API error:'') w');
          w2 = w1\<lparr>localStorage := storage_clear (localStorage w1)\<rparr>;
          w3 = w2\<lparr>sessionStorage := storage_clear (sessionStorage w2)\<rparr>
      in emit (LocationReplace ''/login'') w3)"

record UserProfile =
  up_id :: string
  up_name :: string
  up_email :: string
  up_phone :: "string option"
  up_avatar :: "string option"
  up_role :: "string option"
  up_addresses :: "obj list option"
  up_createdAt :: "string option"
  up_updatedAt :: "string option"

record Sidebar =
  sidebar_user :: "UserProfile option"
  sidebar_loading :: bool
  showProfileModal :: bool

definition getProfile :: "UserProfile adapter \<Rightarrow> world \<Rightarrow> (AxiosError + UserProfile) \<times> world" where
  "getProfile adapter w =
     (case fetchData adapter ''/auth/profile'' None None w of
        (Inr d, w1) \<Rightarrow> (Inr d, w1)
      | (Inl error, w1) \<Rightarrow> (Inl error, emit (ConsoleError ''Profile fetch error:'') w1))"

definition sidebar_dummy_user :: UserProfile where
  "sidebar_dummy_user =
     \<lparr>up_id = ''694a82e83d22a29abf6776ab'', up_name = ''Dummy User'',
      up_email = ''dummy@gmail.com'', up_phone = None, up_avatar = None, up_role = None,
      up_addresses = Some [], up_createdAt = Some ''2025-12-23T11:54:16.111Z'',
      up_updatedAt = Some ''2025-12-23T11:54:16.111Z''\<rparr>"

definition sidebar_fetchUserProfile ::
  "UserProfile adapter \<Rightarrow> Sidebar \<times> world \<Rightarrow> Sidebar \<times> world" where
  "sidebar_fetchUserProfile adapter sw =
     (case sw of (s, w) \<Rightarrow>
        let s1 = s\<lparr>sidebar_loading := True\<rparr> in
        case getProfile adapter w of
          (Inr profile, w1) \<Rightarrow> (s1\<lparr>sidebar_user := Some profile, sidebar_loading := False\<rparr>, w1)
        | (Inl error, w1) \<Rightarrow>
            (s1\<lparr>sidebar_user := Some sidebar_dummy_user, sidebar_loading := False\<rparr>,
             emit (ConsoleError ''Failed to fetch profile:'') w1))"

text \<open>
  \<^verbatim>\<open>handleLogout\<close> of the sidebar: the local clean-up sits in the \<^verbatim>\<open>try\<close> block after
  the request, and the \<^verbatim>\<open>catch\<close> block has a clean-up of its own.
\<close>

definition sidebar_handleLogout :: "'a adapter \<Rightarrow> Sidebar \<times> world \<Rightarrow> Sidebar \<times> world" where
  "sidebar_handleLogout adapter sw =
     (case sw of (s, w) \<Rightarrow>
        case fetchData adapter ''/auth/logout'' (Some [(''method'', ''POST'')]) None w of
          (Inr d, w1) \<Rightarrow>
            let w2 = w1\<lparr>localStorage := removeItem ''token'' (localStorage w1)\<rparr>;
                w3 = w2\<lparr>localStorage := removeItem ''authToken'' (localStorage w2)\<rparr>;
                w4 = w3\<lparr>localStorage := removeItem ''user'' (localStorage w3)\<rparr>;
                w5 = setAuthToken None w4;
                s1 = s\<lparr>sidebar_user := None\<rparr>;
                s2 = s1\<lparr>showProfileModal := False\<rparr>
            in (s2, emit (RouterPush ''/login'') w5)
        | (Inl error, w1) \<Rightarrow>
            let w2 = emit (ConsoleError ''Logout error:'') w1;
                w3 = w2\<lparr>localStorage := storage_clear (localStorage w2)\<rparr>
            in (s, emit (RouterPush ''/login'') w3))"

section \<open>Concrete sessions\<close>

text \<open>Inputs on which the results below are evaluated.\<close>

definition anonymous_world :: world where
  "anonymous_world =
     \<lparr>has_window = True, pathname = ''/login'', localStorage = Map.empty,
      sessionStorage = Map.empty, navigator_onLine = True,
      defaults_headers_common = Map.empty, trace = []\<rparr>"

definition session_world :: world where
  "session_world =
     \<lparr>has_window = True, pathname = ''/dashboard'',
      localStorage = [''token'' \<mapsto> ''abc'', ''user'' \<mapsto> ''{}''],
      sessionStorage = Map.empty, navigator_onLine = True,
      defaults_headers_common = [''Authorization'' \<mapsto> ''Bearer abc''], trace = []\<rparr>"

definition unauthorized :: AxiosError where
  "unauthorized =
     \<lparr>message = ''Request failed with status code 401'',
      response = Some \<lparr>status = 401, data = None\<rparr>\<rparr>"

definition server_error :: AxiosError where
  "server_error =
     \<lparr>message = ''Request failed with status code 500'',
      response = Some \<lparr>status = 500, data = Some ''boom''\<rparr>\<rparr>"

definition network_error :: AxiosError where
  "network_error = \<lparr>message = ''Network Error'', response = None\<rparr>"

definition stub_user :: User where
  "stub_user =
     \<lparr>user_id = ''u1'', user_name = ''User'', user_email = ''user@example.com'',
      user_role = ''admin''\<rparr>"

definition stub_login :: "LoginResponse adapter" where
  "stub_login q = Inr \<lparr>status = 200, data = \<lparr>token = ''abc'', user = stub_user\<rparr>\<rparr>"

definition empty_token_world :: world where
  "empty_token_world =
     \<lparr>has_window = True, pathname = ''/dashboard'', localStorage = [''token'' \<mapsto> []],
      sessionStorage = Map.empty, navigator_onLine = True,
      defaults_headers_common = Map.empty, trace = []\<rparr>"

definition server_world :: world where
  "server_world =
     \<lparr>has_window = False, pathname = [], localStorage = Map.empty,
      sessionStorage = Map.empty, navigator_onLine = False,
      defaults_headers_common = Map.empty, trace = []\<rparr>"

definition anonymous_auth :: AuthState where
  "anonymous_auth = \<lparr>auth_user = None, auth_token = None, isLoading = False\<rparr>"

definition stub_stringify :: "User \<Rightarrow> string" where
  "stub_stringify u = user_id u"

definition bad_form :: LoginPage where
  "bad_form = \<lparr>formData = \<lparr>email = ''bad'', password = []\<rparr>, loading = False\<rparr>"

definition good_form :: LoginPage where
  "good_form = \<lparr>formData = \<lparr>email = ''u@e.c'', password = ''secret''\<rparr>, loading = False\<rparr>"

section \<open>Basic facts about the model\<close>

lemma requests_of_append: "requests_of (es @ fs) = requests_of es @ requests_of fs"
  by (induction es rule: requests_of.induct) simp_all

lemma emit_fields [simp]:
  "trace (emit e w) = trace w @ [e]"
  "localStorage (emit e w) = localStorage w"
  "sessionStorage (emit e w) = sessionStorage w"
  "defaults_headers_common (emit e w) = defaults_headers_common w"
  "pathname (emit e w) = pathname w"
  "has_window (emit e w) = has_window w"
  "navigator_onLine (emit e w) = navigator_onLine w"
  by (simp_all add: emit_def)

lemma dispatched_emit [simp]:
  "dispatched (emit e w) = dispatched w @ requests_of [e]"
  by (simp add: dispatched_def requests_of_append)

lemma navigations_emit [simp]:
  "navigations (emit e w) = navigations w @ filter is_navigation [e]"
  by (simp add: navigations_def)

lemma toasts_emit [simp]:
  "toasts (emit e w) = toasts w @ filter is_toast [e]"
  by (simp add: toasts_def)

lemma projections_localStorage_update [simp]:
  "dispatched (w\<lparr>localStorage := st\<rparr>) = dispatched w"
  "navigations (w\<lparr>localStorage := st\<rparr>) = navigations w"
  "toasts (w\<lparr>localStorage := st\<rparr>) = toasts w"
  by (simp_all add: dispatched_def navigations_def toasts_def)

lemma projections_sessionStorage_update [simp]:
  "dispatched (w\<lparr>sessionStorage := st\<rparr>) = dispatched w"
  "navigations (w\<lparr>sessionStorage := st\<rparr>) = navigations w"
  "toasts (w\<lparr>sessionStorage := st\<rparr>) = toasts w"
  by (simp_all add: dispatched_def navigations_def toasts_def)

lemma projections_defaults_update [simp]:
  "dispatched (w\<lparr>defaults_headers_common := hs\<rparr>) = dispatched w"
  "navigations (w\<lparr>defaults_headers_common := hs\<rparr>) = navigations w"
  "toasts (w\<lparr>defaults_headers_common := hs\<rparr>) = toasts w"
  by (simp_all add: dispatched_def navigations_def toasts_def)

subsection \<open>The response interceptor\<close>

lemma response_rejected_eq:
  "response_rejected error w =
     (if session_expired error w
      then emit (LocationReplace ''/login'')
             (w\<lparr>localStorage := removeItem ''user'' (removeItem ''token'' (localStorage w))\<rparr>)
      else w)"
  by (simp add: response_rejected_def session_expired_def)

lemma session_expired_emit [simp]:
  "session_expired error (emit e w) = session_expired error w"
  by (simp add: session_expired_def)

lemma response_rejected_fields [simp]:
  "has_window (response_rejected error w) = has_window w"
  "pathname (response_rejected error w) = pathname w"
  "sessionStorage (response_rejected error w) = sessionStorage w"
  "navigator_onLine (response_rejected error w) = navigator_onLine w"
  "defaults_headers_common (response_rejected error w) = defaults_headers_common w"
  "dispatched (response_rejected error w) = dispatched w"
  "toasts (response_rejected error w) = toasts w"
  by (simp_all add: response_rejected_eq)

lemma response_rejected_localStorage:
  "localStorage (response_rejected error w) =
     (if session_expired error w
      then removeItem ''user'' (removeItem ''token'' (localStorage w))
      else localStorage w)"
  by (simp add: response_rejected_eq)

lemma response_rejected_navigations:
  "navigations (response_rejected error w) =
     navigations w @ (if session_expired error w then [LocationReplace ''/login''] else [])"
  by (simp add: response_rejected_eq)

subsection \<open>The helpers, by the adapter's reply\<close>

lemma api_request_eq:
  "api_request adapter m e ps b hs w =
     (case adapter (prepare w m e ps b hs) of
        Inr resp \<Rightarrow> (Inr resp, emit (Dispatch (prepare w m e ps b hs)) w)
      | Inl error \<Rightarrow>
          (Inl error, response_rejected error (emit (Dispatch (prepare w m e ps b hs)) w)))"
  by (simp add: api_request_def Let_def)

lemma headers_prepare:
  "headers (prepare w m e ps b hs) k =
     (if k = ''Authorization'' \<and> has_window w \<and> truthy (localStorage w ''token'')
      then map_option (\<lambda>t. ''Bearer '' @ t) (localStorage w ''token'')
      else ((defaults_headers_common w ++ instance_headers) ++ hs) k)"
  by (auto simp add: prepare_def request_interceptor_def split: option.splits)

lemma fetchData_eq:
  "fetchData adapter e ps nc w =
     (let q = prepare w GET e ps None (cache_headers nc) in
      case adapter q of
        Inr resp \<Rightarrow> (Inr (data resp), emit (Dispatch q) w)
      | Inl err \<Rightarrow>
          (Inl err, emit (ConsoleError ''GET Error:'')
                      (response_rejected err (emit (Dispatch q) w))))"
  by (simp add: fetchData_def api_request_eq Let_def split: sum.splits)

lemma postData_eq:
  "postData adapter e body w =
     (let q = prepare w POST e None (Some body) Map.empty in
      case adapter q of
        Inr resp \<Rightarrow> (Inr (data resp), emit (Dispatch q) w)
      | Inl err \<Rightarrow>
          (Inl err, emit (ConsoleError ''POST Error:'')
                      (response_rejected err (emit (Dispatch q) w))))"
  by (simp add: postData_def api_request_eq Let_def split: sum.splits)

lemma putData_eq:
  "putData adapter e body w =
     (let q = prepare w PUT e None (Some body) Map.empty in
      case adapter q of
        Inr resp \<Rightarrow> (Inr (data resp), emit (Dispatch q) w)
      | Inl err \<Rightarrow>
          (Inl err, emit (ConsoleError ''PUT Error:'')
                      (response_rejected err (emit (Dispatch q) w))))"
  by (simp add: putData_def api_request_eq Let_def split: sum.splits)

lemma deleteData_eq:
  "deleteData adapter e w =
     (let q = prepare w DELETE e None None Map.empty in
      case adapter q of
        Inr resp \<Rightarrow> (Inr (data resp), emit (Dispatch q) w)
      | Inl err \<Rightarrow>
          (Inl err, emit (ConsoleError ''DELETE Error:'')
                      (response_rejected err (emit (Dispatch q) w))))"
  by (simp add: deleteData_def api_request_eq Let_def split: sum.splits)

lemmas helper_eqs = fetchData_eq postData_eq putData_eq deleteData_eq

lemma dispatched_helpers:
  "dispatched (snd (fetchData adapter e ps nc w))
     = dispatched w @ [prepare w GET e ps None (cache_headers nc)]"
  "dispatched (snd (postData adapter e body w))
     = dispatched w @ [prepare w POST e None (Some body) Map.empty]"
  "dispatched (snd (putData adapter e body w))
     = dispatched w @ [prepare w PUT e None (Some body) Map.empty]"
  "dispatched (snd (deleteData adapter e w))
     = dispatched w @ [prepare w DELETE e None None Map.empty]"
  by (simp_all add: helper_eqs Let_def split: sum.splits)

lemma cache_headers_Authorization [simp]: "cache_headers nc ''Authorization'' = None"
  by (simp add: cache_headers_def Let_def)

lemma authorization_prepare:
  assumes "hs ''Authorization'' = None"
  shows "authorization (prepare w m e ps b hs) =
     (case (if has_window w then getItem ''token'' (localStorage w) else None) of
        Some t \<Rightarrow>
          if t \<noteq> [] then Some (''Bearer '' @ t) else defaults_headers_common w ''Authorization''
      | None \<Rightarrow> defaults_headers_common w ''Authorization'')"
  using assms
  by (auto simp add: authorization_def prepare_def request_interceptor_def map_add_def
      instance_headers_def split: option.splits)

lemma fetchData_keeps [simp]:
  "has_window (snd (fetchData adapter e ps nc w)) = has_window w"
  "defaults_headers_common (snd (fetchData adapter e ps nc w)) = defaults_headers_common w"
  by (simp_all add: helper_eqs Let_def split: sum.splits)

subsection \<open>Logging in and out\<close>

lemma setAuthToken_fields [simp]:
  "localStorage (setAuthToken t w) = localStorage w"
  "sessionStorage (setAuthToken t w) = sessionStorage w"
  "trace (setAuthToken t w) = trace w"
  "has_window (setAuthToken t w) = has_window w"
  "pathname (setAuthToken t w) = pathname w"
  "dispatched (setAuthToken t w) = dispatched w"
  "navigations (setAuthToken t w) = navigations w"
  "toasts (setAuthToken t w) = toasts w"
  by (cases t; simp add: setAuthToken_def dispatched_def navigations_def toasts_def)+

lemma setAuthToken_header:
  "defaults_headers_common (setAuthToken t w) ''Authorization''
     = (if truthy t then map_option (\<lambda>s. ''Bearer '' @ s) t else None)"
  by (cases t) (simp_all add: setAuthToken_def)

lemma login_Inr:
  "login (\<lambda>q. Inr \<lparr>status = st, data = lr\<rparr>) sf em pw (a, w) =
     (Inr (),
      a\<lparr>isLoading := False, auth_user := Some (user lr), auth_token := Some (token lr)\<rparr>,
      setAuthToken (Some (token lr))
        ((emit (Dispatch (prepare w POST ''/auth/login'' None
             (Some [(''email'', em), (''password'', pw)]) Map.empty)) w)
           \<lparr>localStorage :=
              setItem ''user'' (sf (user lr)) (setItem ''token'' (token lr) (localStorage w))\<rparr>))"
  by (simp add: login_def postData_eq Let_def)


lemma logout_eq:
  "logout (a, w) =
     (a\<lparr>auth_user := None, auth_token := None\<rparr>,
      emit (RouterPush ''/login'')
        (setAuthToken None
           (w\<lparr>localStorage := removeItem ''user'' (removeItem ''token'' (localStorage w))\<rparr>)))"
  by (simp add: logout_def Let_def)

text \<open>
  The sidebar logs out locally on both paths, but it clears the default header on the
  successful one only.
\<close>

lemma sidebar_handleLogout_store:
  "getItem ''token'' (localStorage (snd (sidebar_handleLogout adapter (s, w)))) = None"
  "getItem ''user'' (localStorage (snd (sidebar_handleLogout adapter (s, w)))) = None"
  "last (trace (snd (sidebar_handleLogout adapter (s, w)))) = RouterPush ''/login''"
  by (simp_all add: sidebar_handleLogout_def fetchData_eq Let_def split: sum.splits)

lemma sidebar_handleLogout_header:
  "defaults_headers_common (snd (sidebar_handleLogout (\<lambda>q. Inr resp) (s, w))) ''Authorization''
     = None"
  "defaults_headers_common (snd (sidebar_handleLogout (\<lambda>q. Inl err) (s, w)))
     = defaults_headers_common w"
  by (simp_all add: sidebar_handleLogout_def fetchData_eq Let_def setAuthToken_header)

lemma header_handleLogout_eq:
  "header_handleLogout adapter w =
     (let q = prepare w GET ''/auth/logout'' (Some [(''method'', ''POST'')]) None
                (cache_headers None) in
      emit (LocationReplace ''/login'')
        ((case adapter q of
            Inr resp \<Rightarrow> emit (Dispatch q) w
          | Inl err \<Rightarrow>
              emit (ConsoleError ''Logout API error:'')
                (emit (ConsoleError ''GET Error:'')
                   (response_rejected err (emit (Dispatch q) w))))
         \<lparr>localStorage := Map.empty, sessionStorage := Map.empty\<rparr>))"
  by (simp add: header_handleLogout_def fetchData_eq Let_def split: sum.splits)

subsection \<open>The validation of the login form\<close>

lemma mem_dropWhile: "x \<in> set xs \<Longrightarrow> \<not> P x \<Longrightarrow> x \<in> set (dropWhile P xs)"
  by (induction xs) auto

text \<open>\<^verbatim>\<open>!s.trim()\<close> holds exactly of the strings made of white space only.\<close>

lemma trim_empty_iff: "trim s = [] \<longleftrightarrow> (\<forall>c \<in> set s. is_space c)"
proof
  assume "trim s = []"
  then have *: "\<forall>c \<in> set (dropWhile is_space s). is_space c"
    by (simp add: trim_def dropWhile_eq_Nil_conv)
  show "\<forall>c \<in> set s. is_space c"
  proof
    fix c assume "c \<in> set s"
    show "is_space c"
    proof (rule ccontr)
      assume "\<not> is_space c"
      with \<open>c \<in> set s\<close> have "c \<in> set (dropWhile is_space s)" by (rule mem_dropWhile)
      with * \<open>\<not> is_space c\<close> show False by blast
    qed
  qed
next
  assume "\<forall>c \<in> set s. is_space c"
  then have "dropWhile is_space s = []" by (simp add: dropWhile_eq_Nil_conv)
  then show "trim s = []" by (simp only: trim_def rev.simps dropWhile.simps)
qed

text \<open>The matcher decides membership in the language of the expression.\<close>

lemma nullable_iff: "nullable r \<longleftrightarrow> [] \<in> lang r"
  by (induction r) (auto intro: star.star_nil)

lemma lang_SeqI: "u \<in> lang r \<Longrightarrow> v \<in> lang s \<Longrightarrow> u @ v \<in> lang (Seq r s)"
  by simp blast

lemma star_cons_split:
  assumes "w \<in> star A" and "w = c # v"
  shows "\<exists>u t. v = u @ t \<and> c # u \<in> A \<and> t \<in> star A"
  using assms
proof (induction arbitrary: v rule: star.induct)
  case star_nil
  then show ?case by simp
next
  case (star_app u t)
  show ?case
  proof (cases u)
    case Nil
    with star_app show ?thesis by simp
  next
    case (Cons a us)
    with star_app.prems have "a = c" and "v = us @ t" by simp_all
    with Cons star_app.hyps show ?thesis by blast
  qed
qed

lemma star_cons_iff:
  "c # v \<in> star A \<longleftrightarrow> (\<exists>u t. v = u @ t \<and> c # u \<in> A \<and> t \<in> star A)"
proof
  assume "c # v \<in> star A"
  then show "\<exists>u t. v = u @ t \<and> c # u \<in> A \<and> t \<in> star A"
    by (rule star_cons_split) simp
next
  assume "\<exists>u t. v = u @ t \<and> c # u \<in> A \<and> t \<in> star A"
  then obtain u t where "v = u @ t" "c # u \<in> A" "t \<in> star A" by blast
  then have "(c # u) @ t \<in> star A" by (blast intro: star.star_app)
  with \<open>v = u @ t\<close> show "c # v \<in> star A" by simp
qed

lemma lang_deriv: "w \<in> lang (deriv c r) \<longleftrightarrow> c # w \<in> lang r"
proof (induction r arbitrary: w)
  case (Seq r s)
  show ?case
  proof
    assume "w \<in> lang (deriv c (Seq r s))"
    then consider (left) u v where "w = u @ v" "u \<in> lang (deriv c r)" "v \<in> lang s"
      | (right) "nullable r" "w \<in> lang (deriv c s)"
      by (auto split: if_splits)
    then show "c # w \<in> lang (Seq r s)"
    proof cases
      case left
      then have "c # u \<in> lang r" using Seq.IH(1) by simp
      with left have "(c # u) @ v \<in> lang (Seq r s)" by (intro lang_SeqI)
      with left show ?thesis by simp
    next
      case right
      then have "[] \<in> lang r" "c # w \<in> lang s"
        using Seq.IH(2) by (simp_all add: nullable_iff)
      then have "[] @ (c # w) \<in> lang (Seq r s)" by (rule lang_SeqI)
      then show ?thesis by simp
    qed
  next
    assume "c # w \<in> lang (Seq r s)"
    then obtain u v where uv: "c # w = u @ v" "u \<in> lang r" "v \<in> lang s" by auto
    show "w \<in> lang (deriv c (Seq r s))"
    proof (cases u)
      case Nil
      with uv have "nullable r" "w \<in> lang (deriv c s)"
        using Seq.IH(2) by (simp_all add: nullable_iff)
      then show ?thesis by simp
    next
      case (Cons a us)
      with uv have "a = c" "w = us @ v" by simp_all
      with Cons uv have "us \<in> lang (deriv c r)" using Seq.IH(1) by simp
      then have "us @ v \<in> lang (Seq (deriv c r) s)" using uv(3) by (rule lang_SeqI)
      with \<open>w = us @ v\<close> show ?thesis by simp
    qed
  qed
next
  case (Star r)
  show ?case
  proof
    assume "w \<in> lang (deriv c (Star r))"
    then obtain u v where "w = u @ v" "u \<in> lang (deriv c r)" "v \<in> star (lang r)" by auto
    then have "w = u @ v \<and> c # u \<in> lang r \<and> v \<in> star (lang r)"
      using Star.IH by simp
    then show "c # w \<in> lang (Star r)"
      unfolding lang.simps star_cons_iff by blast
  next
    assume "c # w \<in> lang (Star r)"
    then obtain u t where "w = u @ t" "c # u \<in> lang r" "t \<in> star (lang r)"
      by (auto simp add: star_cons_iff)
    then have "u \<in> lang (deriv c r)" "t \<in> lang (Star r)"
      using Star.IH by simp_all
    then have "u @ t \<in> lang (Seq (deriv c r) (Star r))" by (rule lang_SeqI)
    with \<open>w = u @ t\<close> show "w \<in> lang (deriv c (Star r))" by simp
  qed
qed auto

lemma regex_test_iff: "regex_test r s \<longleftrightarrow> s \<in> lang r"
  by (induction s arbitrary: r) (simp_all add: nullable_iff lang_deriv)

lemma star_Sym: "w \<in> star {[c] | c. p c} \<longleftrightarrow> (\<forall>c \<in> set w. p c)"
proof
  assume "w \<in> star {[c] | c. p c}"
  then show "\<forall>c \<in> set w. p c"
    by (induction rule: star.induct) auto
next
  assume "\<forall>c \<in> set w. p c"
  then show "w \<in> star {[c] | c. p c}"
  proof (induction w)
    case Nil
    show ?case by (rule star.star_nil)
  next
    case (Cons a w)
    then have "[a] \<in> {[c] | c. p c}" "w \<in> star {[c] | c. p c}" by simp_all
    then have "[a] @ w \<in> star {[c] | c. p c}" by (rule star.star_app)
    then show ?case by simp
  qed
qed

lemma lang_one_or_more_Sym:
  "w \<in> lang (one_or_more (Sym p)) \<longleftrightarrow> w \<noteq> [] \<and> (\<forall>c \<in> set w. p c)"
proof
  assume "w \<in> lang (one_or_more (Sym p))"
  then obtain c v where "w = c # v" "p c" "v \<in> star {[c] | c. p c}"
    by (auto simp add: one_or_more_def)
  then show "w \<noteq> [] \<and> (\<forall>c \<in> set w. p c)" by (simp add: star_Sym)
next
  assume "w \<noteq> [] \<and> (\<forall>c \<in> set w. p c)"
  then obtain c v where "w = c # v" "p c" "\<forall>c \<in> set v. p c" by (cases w) auto
  then have "[c] \<in> lang (Sym p)" "v \<in> lang (Star (Sym p))" by (simp_all add: star_Sym)
  then have "[c] @ v \<in> lang (Seq (Sym p) (Star (Sym p)))" by (rule lang_SeqI)
  with \<open>w = c # v\<close> show "w \<in> lang (one_or_more (Sym p))" by (simp add: one_or_more_def)
qed

text \<open>
  What the pattern of the login form accepts: a part, \<open>@\<close>, a part, a dot, a part,
  where the parts after the \<open>@\<close> may themselves contain dots.
\<close>

lemma emailRegex_iff:
  "regex_test emailRegex s \<longleftrightarrow>
     (\<exists>a b c. s = a @ ''@'' @ b @ ''.'' @ c \<and> email_part a \<and> email_part b \<and> email_part c)"
proof -
  have part: "\<And>w. w \<in> lang (one_or_more (Sym not_space_at)) \<longleftrightarrow> email_part w"
    by (simp add: lang_one_or_more_Sym email_part_def not_space_at_def)
  have "s \<in> lang emailRegex \<longleftrightarrow>
     (\<exists>a b c. s = a @ ''@'' @ b @ ''.'' @ c \<and> email_part a \<and> email_part b \<and> email_part c)"
    unfolding emailRegex_def lang.simps(5) [of "one_or_more (Sym not_space_at)"]
      lang.simps(5) [of "Sym _"] lang.simps(3)
    by (auto simp add: part) blast+
  then show ?thesis by (simp add: regex_test_iff)
qed

lemma handleSubmit_valid:
  assumes "\<not> loading p" and "trim (email (formData p)) \<noteq> []"
    and "trim (password (formData p)) \<noteq> []"
    and "regex_test emailRegex (email (formData p))"
  shows "handleSubmit adapter sf isMounted (p, w) =
     (let q = prepare w POST ''/auth/login'' None
                (Some [(''email'', email (formData p)), (''password'', password (formData p))])
                Map.empty
      in case adapter q of
        Inr resp \<Rightarrow>
          if isMounted then
            (p\<lparr>loading := False\<rparr>,
             emit (SetTimeout 1000 (RouterPush ''/dashboard''))
               (emit (ToastSuccess ''Login successful! Redirecting...'')
                  (setAuthToken (Some (token (data resp)))
                     ((emit (Dispatch q) w)\<lparr>localStorage :=
                        setItem ''user'' (sf (user (data resp)))
                          (setItem ''token'' (token (data resp)) (localStorage w))\<rparr>))))
          else (p\<lparr>loading := True\<rparr>, emit (Dispatch q) w)
      | Inl err \<Rightarrow>
          if isMounted then
            (p\<lparr>loading := False\<rparr>,
             emit (ToastError (login_error_message err w))
               (emit (ConsoleError ''Login error:'')
                  (emit (ConsoleError ''POST Error:'')
                     (response_rejected err (emit (Dispatch q) w)))))
          else (p\<lparr>loading := True\<rparr>,
                emit (ConsoleError ''POST Error:'')
                  (response_rejected err (emit (Dispatch q) w))))"
  using assms
  by (simp add: handleSubmit_def postData_eq Let_def login_error_message_def split: sum.splits)

lemma good_form_valid:
  "\<not> loading good_form" "trim (email (formData good_form)) \<noteq> []"
  "trim (password (formData good_form)) \<noteq> []"
  "regex_test emailRegex (email (formData good_form))"
  by (simp_all add: good_form_def trim_def is_space_def emailRegex_def one_or_more_def
      not_space_at_def)

lemma dispatched_examples [simp]:
  "dispatched anonymous_world = []" "dispatched session_world = []"
  by (simp_all add: dispatched_def anonymous_world_def session_world_def)

section \<open>The request client\<close>

text \<open>
  Claim C1. In the browser, whenever a call through \<^verbatim>\<open>fetchData\<close>, \<^verbatim>\<open>postData\<close>,
  \<^verbatim>\<open>putData\<close> or \<^verbatim>\<open>deleteData\<close> ends in an error, the caller receives that very
  error; the stored token and user are removed and one navigation to \<^verbatim>\<open>/login\<close> is
  issued exactly when the status is 401 and the current path is not \<^verbatim>\<open>/login\<close>, and
  otherwise local storage and the navigations are as they were.
\<close>

theorem request_client_rethrows_and_expires:
  assumes "has_window w"
  shows "\<forall>(r, w') \<in> {fetchData (\<lambda>q. Inl err) endpoint ps noCache w,
                     postData (\<lambda>q. Inl err) endpoint body w,
                     putData (\<lambda>q. Inl err) endpoint body w,
                     deleteData (\<lambda>q. Inl err) endpoint w}.
           r = Inl err \<and>
           localStorage w' =
             (if response_status err = Some 401 \<and> pathname w \<noteq> ''/login''
              then removeItem ''user'' (removeItem ''token'' (localStorage w))
              else localStorage w) \<and>
           navigations w' = navigations w @
             (if response_status err = Some 401 \<and> pathname w \<noteq> ''/login''
              then [LocationReplace ''/login''] else [])"
  using assms
  by (simp add: helper_eqs Let_def response_rejected_localStorage
      response_rejected_navigations session_expired_def)

theorem request_client_rethrows_and_expires_witness:
  "has_window session_world \<and>
   fst (fetchData (\<lambda>q. Inl unauthorized) ''/products'' None None session_world)
     = (Inl unauthorized :: AxiosError + unit) \<and>
   fst (postData (\<lambda>q. Inl unauthorized) ''/products'' [] session_world)
     = (Inl unauthorized :: AxiosError + unit) \<and>
   fst (putData (\<lambda>q. Inl unauthorized) ''/products'' [] session_world)
     = (Inl unauthorized :: AxiosError + unit) \<and>
   fst (deleteData (\<lambda>q. Inl unauthorized) ''/products'' session_world)
     = (Inl unauthorized :: AxiosError + unit) \<and>
   localStorage (snd (fetchData (\<lambda>q. Inl unauthorized :: AxiosError + unit AxiosResponse)
     ''/products'' None None session_world)) ''token'' = None \<and>
   localStorage (snd (fetchData (\<lambda>q. Inl unauthorized :: AxiosError + unit AxiosResponse)
     ''/products'' None None session_world)) ''user'' = None \<and>
   navigations (snd (fetchData (\<lambda>q. Inl unauthorized :: AxiosError + unit AxiosResponse)
     ''/products'' None None session_world)) = [LocationReplace ''/login'']"
  using request_client_rethrows_and_expires
    [where ?'a = unit and w = session_world and err = unauthorized
       and endpoint = "''/products''" and ps = None and noCache = None and body = "[]"]
  by (simp add: session_world_def unauthorized_def response_status_def navigations_def
      split_beta)

text \<open>
  Claim C2, amended. In the browser every request sent through a helper carries
  \<^verbatim>\<open>Authorization: Bearer <t>\<close> where \<open>t\<close> is the non-empty token in local storage when
  the request is sent; when no token (or the empty string) is stored, the request
  carries the default header of the client, which is absent only if none is configured.
  Two calls made while different tokens are stored each carry the token of their own
  time, and the request already sent keeps its header.
\<close>

theorem authorization_bound_at_dispatch:
  assumes "has_window w"
  shows "(\<forall>w' \<in> {snd (fetchData a1 endpoint ps noCache w), snd (postData a2 endpoint body w),
                  snd (putData a3 endpoint body w), snd (deleteData a4 endpoint w)}.
            map authorization (dispatched w') = map authorization (dispatched w) @
              [case getItem ''token'' (localStorage w) of
                 Some t \<Rightarrow>
                   if t \<noteq> [] then Some (''Bearer '' @ t)
                   else defaults_headers_common w ''Authorization''
               | None \<Rightarrow> defaults_headers_common w ''Authorization'']) \<and>
         (getItem ''token'' (localStorage w) = Some t1 \<and> t1 \<noteq> [] \<and> t2 \<noteq> [] \<longrightarrow>
            map authorization
              (dispatched (snd (fetchData b2 endpoint2 ps2 noCache2
                 ((snd (fetchData b1 endpoint1 ps1 noCache1 w))
                    \<lparr>localStorage := setItem ''token'' t2
                       (localStorage (snd (fetchData b1 endpoint1 ps1 noCache1 w)))\<rparr>))))
            = map authorization (dispatched w) @ [Some (''Bearer '' @ t1), Some (''Bearer '' @ t2)])"
  using assms
  by (simp add: dispatched_helpers authorization_prepare split: option.splits)

theorem authorization_bound_at_dispatch_witness:
  "has_window session_world \<and>
   map authorization
     (dispatched (snd (postData (\<lambda>q. Inl network_error :: AxiosError + unit AxiosResponse)
        ''/products'' [] session_world))) = [Some ''Bearer abc''] \<and>
   map authorization
     (dispatched (snd (fetchData (\<lambda>q. Inl network_error :: AxiosError + unit AxiosResponse)
        ''/orders'' None None
        ((snd (fetchData (\<lambda>q. Inl network_error :: AxiosError + unit AxiosResponse)
            ''/products'' None None session_world))
           \<lparr>localStorage := setItem ''token'' ''xyz''
              (localStorage (snd (fetchData
                 (\<lambda>q. Inl network_error :: AxiosError + unit AxiosResponse)
                 ''/products'' None None session_world)))\<rparr>))))
     = [Some ''Bearer abc'', Some ''Bearer xyz'']"
  using authorization_bound_at_dispatch
    [where w = session_world and ?t1.0 = "''abc''" and ?t2.0 = "''xyz''"
       and ?a1.0 = "\<lambda>q. Inl network_error :: AxiosError + unit AxiosResponse"
       and ?a2.0 = "\<lambda>q. Inl network_error :: AxiosError + unit AxiosResponse"
       and ?a3.0 = "\<lambda>q. Inl network_error :: AxiosError + unit AxiosResponse"
       and ?a4.0 = "\<lambda>q. Inl network_error :: AxiosError + unit AxiosResponse"
       and body = "[]" and endpoint = "''/products''" and ps = None and noCache = None
       and ?b1.0 = "\<lambda>q. Inl network_error :: AxiosError + unit AxiosResponse"
       and ?b2.0 = "\<lambda>q. Inl network_error :: AxiosError + unit AxiosResponse"
       and ?endpoint1.0 = "''/products''" and ?endpoint2.0 = "''/orders''"
       and ?ps1.0 = None and ?ps2.0 = None and ?noCache1.0 = None and ?noCache2.0 = None]
  by (simp add: session_world_def dispatched_def)

text \<open>
  Claim C2 as stated fails: after a 401 has cleared the stored token, the next request
  still carries the \<^verbatim>\<open>Authorization\<close> header that \<^verbatim>\<open>setAuthToken\<close> had configured.
\<close>

theorem stale_default_header_counterexample:
  "getItem ''token'' (localStorage (snd (fetchData
      (\<lambda>q. Inl unauthorized :: AxiosError + unit AxiosResponse)
      ''/products'' None None session_world))) = None \<and>
   map authorization
     (dispatched (snd (fetchData (\<lambda>q. Inl unauthorized :: AxiosError + unit AxiosResponse)
        ''/orders'' None None
        (snd (fetchData (\<lambda>q. Inl unauthorized :: AxiosError + unit AxiosResponse)
           ''/products'' None None session_world)))))
     = [Some ''Bearer abc'', Some ''Bearer abc'']"
  by (simp add: dispatched_helpers authorization_prepare fetchData_eq Let_def
      response_rejected_localStorage session_expired_def unauthorized_def response_status_def)
    (simp add: session_world_def)

text \<open>
  Claim C9, amended. A GET made through \<^verbatim>\<open>fetchData\<close> with \<^verbatim>\<open>noCache\<close> left at its
  default carries \<^verbatim>\<open>Cache-Control: no-cache\<close>. \<^verbatim>\<open>postData\<close>, \<^verbatim>\<open>putData\<close> and
  \<^verbatim>\<open>deleteData\<close> add no cache directive: their requests carry a \<^verbatim>\<open>Cache-Control\<close>
  header only if the default headers of the client have one.
\<close>

theorem cache_control_by_helper:
  "map (\<lambda>q. headers q ''Cache-Control'') (dispatched (snd (fetchData a1 endpoint ps None w)))
     = map (\<lambda>q. headers q ''Cache-Control'') (dispatched w) @ [Some ''no-cache''] \<and>
   map (\<lambda>q. headers q ''Cache-Control'') (dispatched (snd (postData a2 endpoint body w)))
     = map (\<lambda>q. headers q ''Cache-Control'') (dispatched w)
         @ [defaults_headers_common w ''Cache-Control''] \<and>
   map (\<lambda>q. headers q ''Cache-Control'') (dispatched (snd (putData a3 endpoint body w)))
     = map (\<lambda>q. headers q ''Cache-Control'') (dispatched w)
         @ [defaults_headers_common w ''Cache-Control''] \<and>
   map (\<lambda>q. headers q ''Cache-Control'') (dispatched (snd (deleteData a4 endpoint w)))
     = map (\<lambda>q. headers q ''Cache-Control'') (dispatched w)
         @ [defaults_headers_common w ''Cache-Control'']"
  by (simp add: dispatched_helpers headers_prepare cache_headers_def instance_headers_def
      map_add_def)

theorem cache_control_by_helper_witness:
  "map (\<lambda>q. headers q ''Cache-Control'')
     (dispatched (snd (fetchData (\<lambda>q. Inr \<lparr>status = 200, data = ()\<rparr>)
        ''/products'' None None session_world))) = [Some ''no-cache''] \<and>
   map (\<lambda>q. headers q ''Cache-Control'')
     (dispatched (snd (deleteData (\<lambda>q. Inr \<lparr>status = 200, data = ()\<rparr>)
        ''/products'' session_world))) = [None]"
  using cache_control_by_helper
    [where w = session_world and endpoint = "''/products''" and ps = None and body = "[]"
       and ?a1.0 = "\<lambda>q. Inr \<lparr>status = 200, data = ()\<rparr>"
       and ?a2.0 = "\<lambda>q. Inr \<lparr>status = 200, data = ()\<rparr>"
       and ?a3.0 = "\<lambda>q. Inr \<lparr>status = 200, data = ()\<rparr>"
       and ?a4.0 = "\<lambda>q. Inr \<lparr>status = 200, data = ()\<rparr>"]
  by (simp add: session_world_def dispatched_def)

text \<open>
  Claim C9 as stated fails for \<^verbatim>\<open>postData\<close>: the request it sends has no
  \<^verbatim>\<open>Cache-Control\<close> header.
\<close>

theorem post_without_cache_directive_counterexample:
  "map (\<lambda>q. headers q ''Cache-Control'')
     (dispatched (snd (postData (\<lambda>q. Inr \<lparr>status = 200, data = ()\<rparr>)
        ''/products'' [(''name'', ''x'')] session_world)))
   = [None]"
  by (simp add: dispatched_helpers headers_prepare instance_headers_def map_add_def)
    (simp add: session_world_def)

section \<open>The route guard decides from local storage\<close>

text \<open>
  Claim C4, amended. Mounting \<^verbatim>\<open>ProtectedLayout\<close> in the browser reads local storage
  and sends no request. With no token stored, or with the empty string stored, it
  renders nothing and issues replaces to \<^verbatim>\<open>/login\<close> and no other navigation: exactly
  one in a production build, two in a development build, where strict mode runs the
  effect twice. With a non-empty token stored it renders its children and leaves the
  world as it was. A server render, which has no window, renders nothing and issues
  nothing.
\<close>

theorem route_guard_reads_store:
  "(has_window w \<and>
    (getItem ''token'' (localStorage w) = None \<or> getItem ''token'' (localStorage w) = Some []) \<longrightarrow>
      fst (ProtectedLayout_mount development children w) = None \<and>
      navigations (snd (ProtectedLayout_mount development children w))
        = navigations w @
            (if development then [RouterReplace ''/login'', RouterReplace ''/login'']
             else [RouterReplace ''/login'']) \<and>
      dispatched (snd (ProtectedLayout_mount development children w)) = dispatched w \<and>
      localStorage (snd (ProtectedLayout_mount development children w)) = localStorage w) \<and>
   (has_window w \<and> getItem ''token'' (localStorage w) = Some t \<and> t \<noteq> [] \<longrightarrow>
      ProtectedLayout_mount development children w = (Some children, w)) \<and>
   (\<not> has_window w \<longrightarrow> ProtectedLayout_mount development children w = (None, w))"
  by (cases "localStorage w ''token''")
    (auto simp add: ProtectedLayout_mount_def ProtectedLayout_render_def
      ProtectedLayout_effect_def isAuthenticated_def ProtectedLayout_token_def
      reactStrictMode_def)

theorem route_guard_reads_store_witness:
  "has_window anonymous_world \<and> getItem ''token'' (localStorage anonymous_world) = None \<and>
   fst (ProtectedLayout_mount False ''page'' anonymous_world) = None \<and>
   navigations (snd (ProtectedLayout_mount False ''page'' anonymous_world))
     = [RouterReplace ''/login''] \<and>
   dispatched (snd (ProtectedLayout_mount False ''page'' anonymous_world)) = [] \<and>
   has_window empty_token_world \<and>
   getItem ''token'' (localStorage empty_token_world) = Some [] \<and>
   fst (ProtectedLayout_mount False ''page'' empty_token_world) = None \<and>
   navigations (snd (ProtectedLayout_mount False ''page'' empty_token_world))
     = [RouterReplace ''/login''] \<and>
   has_window session_world \<and> getItem ''token'' (localStorage session_world) = Some ''abc'' \<and>
   ProtectedLayout_mount True ''page'' session_world = (Some ''page'', session_world) \<and>
   \<not> has_window server_world \<and>
   ProtectedLayout_mount True ''page'' server_world = (None, server_world)"
  using route_guard_reads_store
    [where w = anonymous_world and children = "''page''" and development = False
       and t = "''abc''"]
    route_guard_reads_store
    [where w = empty_token_world and children = "''page''" and development = False
       and t = "''abc''"]
    route_guard_reads_store
    [where w = session_world and children = "''page''" and development = True
       and t = "''abc''"]
    route_guard_reads_store
    [where w = server_world and children = "''page''" and development = True
       and t = "''abc''"]
  by (simp add: anonymous_world_def empty_token_world_def session_world_def server_world_def
      navigations_def dispatched_def)

text \<open>
  Claim C4 as stated fails in two places. A stored empty string is a stored credential,
  yet the guard renders nothing and redirects; and in a development build the mount
  without a credential issues two redirects, not one.
\<close>

theorem route_guard_counterexample:
  "getItem ''token'' (localStorage empty_token_world) = Some [] \<and>
   fst (ProtectedLayout_mount False ''page'' empty_token_world) = None \<and>
   navigations (snd (ProtectedLayout_mount False ''page'' empty_token_world))
     = [RouterReplace ''/login''] \<and>
   navigations (snd (ProtectedLayout_mount True ''page'' anonymous_world))
     = [RouterReplace ''/login'', RouterReplace ''/login'']"
  by (simp add: ProtectedLayout_mount_def ProtectedLayout_render_def
      ProtectedLayout_effect_def isAuthenticated_def ProtectedLayout_token_def
      reactStrictMode_def empty_token_world_def anonymous_world_def navigations_def)

section \<open>The session controller keeps store and header together\<close>




text \<open>
  Claim C5, amended. In the browser, when the call to \<^verbatim>\<open>/auth/login\<close> succeeds with a
  non-empty token and a user, \<^verbatim>\<open>login\<close> stores the token and the serialised user, sets
  the default header to \<^verbatim>\<open>Bearer <token>\<close>, puts user and token into the state of the
  provider and resolves with no value. \<^verbatim>\<open>handleSubmit\<close> of the login page, on a valid
  form and while the page is mounted, stores the same two items, sets the same header,
  shows a success toast and leaves the redirect to a timer.
\<close>

theorem login_success_establishes_session:
  assumes "has_window w" and "tok \<noteq> []"
  shows "(case login (\<lambda>q. Inr \<lparr>status = st, data = \<lparr>token = tok, user = u\<rparr>\<rparr>) sf em pw (a, w) of
            (r, a', w') \<Rightarrow>
              r = Inr () \<and>
              getItem ''token'' (localStorage w') = Some tok \<and>
              getItem ''user'' (localStorage w') = Some (sf u) \<and>
              defaults_headers_common w' ''Authorization'' = Some (''Bearer '' @ tok) \<and>
              auth_user a' = Some u \<and> auth_token a' = Some tok \<and> isLoading a' = False) \<and>
         (\<not> loading p \<and> trim (email (formData p)) \<noteq> [] \<and> trim (password (formData p)) \<noteq> [] \<and>
          regex_test emailRegex (email (formData p)) \<longrightarrow>
            (case handleSubmit (\<lambda>q. Inr \<lparr>status = st, data = \<lparr>token = tok, user = u\<rparr>\<rparr>)
                    sf True (p, w) of
               (p', w') \<Rightarrow>
                 getItem ''token'' (localStorage w') = Some tok \<and>
                 getItem ''user'' (localStorage w') = Some (sf u) \<and>
                 defaults_headers_common w' ''Authorization'' = Some (''Bearer '' @ tok) \<and>
                 toasts w' = toasts w @ [ToastSuccess ''Login successful! Redirecting...''] \<and>
                 last (trace w') = SetTimeout 1000 (RouterPush ''/dashboard'') \<and>
                 loading p' = False))"
  using assms
  by (simp add: login_Inr setAuthToken_header handleSubmit_valid)

theorem login_success_establishes_session_witness:
  "has_window anonymous_world \<and>
   getItem ''token'' (localStorage (snd (snd (login stub_login stub_stringify
      ''user@example.com'' ''secret'' (anonymous_auth, anonymous_world))))) = Some ''abc'' \<and>
   getItem ''user'' (localStorage (snd (snd (login stub_login stub_stringify
      ''user@example.com'' ''secret'' (anonymous_auth, anonymous_world))))) = Some ''u1'' \<and>
   defaults_headers_common (snd (snd (login stub_login stub_stringify
      ''user@example.com'' ''secret'' (anonymous_auth, anonymous_world)))) ''Authorization''
     = Some ''Bearer abc'' \<and>
   auth_user (fst (snd (login stub_login stub_stringify
      ''user@example.com'' ''secret'' (anonymous_auth, anonymous_world)))) = Some stub_user \<and>
   getItem ''token'' (localStorage (snd (handleSubmit stub_login stub_stringify True
      (good_form, anonymous_world)))) = Some ''abc'' \<and>
   defaults_headers_common (snd (handleSubmit stub_login stub_stringify True
      (good_form, anonymous_world))) ''Authorization'' = Some ''Bearer abc''"
  using login_success_establishes_session
    [where w = anonymous_world and tok = "''abc''" and st = 200 and u = stub_user
       and sf = stub_stringify and em = "''user@example.com''" and pw = "''secret''"
       and a = anonymous_auth and p = good_form]
    good_form_valid
  unfolding stub_login_def
  by (simp add: anonymous_world_def stub_stringify_def stub_user_def split_beta)

text \<open>
  Claim C5 as stated fails in its last part: \<^verbatim>\<open>login\<close> resolves with no value; the
  user of the reply reaches the caller through the state of the provider only.
\<close>

theorem login_resolves_without_value_counterexample:
  "fst (login stub_login stub_stringify ''user@example.com'' ''secret''
          (anonymous_auth, anonymous_world)) = Inr () \<and>
   auth_user (fst (snd (login stub_login stub_stringify ''user@example.com'' ''secret''
          (anonymous_auth, anonymous_world)))) = Some stub_user"
  unfolding stub_login_def by (simp add: login_Inr)

text \<open>
  Claim C6, amended. \<^verbatim>\<open>handleSubmit\<close> of the login page sends no request when the
  email or the password is empty or white space only, or when the email does not match
  the pattern: it leaves form and local storage as they are and, unless a submission is
  already running, shows an error toast. \<^verbatim>\<open>login\<close> of the provider validates
  nothing.
\<close>

theorem handleSubmit_validates_before_request:
  assumes "(\<forall>c \<in> set (email (formData p)). is_space c) \<or>
           (\<forall>c \<in> set (password (formData p)). is_space c) \<or>
           \<not> regex_test emailRegex (email (formData p))"
  shows "dispatched (snd (handleSubmit adapter sf isMounted (p, w))) = dispatched w \<and>
         localStorage (snd (handleSubmit adapter sf isMounted (p, w))) = localStorage w \<and>
         fst (handleSubmit adapter sf isMounted (p, w)) = p \<and>
         (\<not> loading p \<longrightarrow>
            toasts (snd (handleSubmit adapter sf isMounted (p, w))) = toasts w @
              [ToastError
                 (if (\<forall>c \<in> set (email (formData p)). is_space c) \<or>
                     (\<forall>c \<in> set (password (formData p)). is_space c)
                  then ''Please fill in all fields''
                  else ''Please enter a valid email address'')])"
  using assms
  by (auto simp add: handleSubmit_def trim_empty_iff)

theorem handleSubmit_validates_before_request_witness:
  "password (formData bad_form) = [] \<and>
   dispatched (snd (handleSubmit stub_login stub_stringify True (bad_form, anonymous_world)))
     = [] \<and>
   toasts (snd (handleSubmit stub_login stub_stringify True (bad_form, anonymous_world)))
     = [ToastError ''Please fill in all fields'']"
  using handleSubmit_validates_before_request
    [where p = bad_form and adapter = stub_login and sf = stub_stringify
       and isMounted = True and w = anonymous_world]
  by (simp add: bad_form_def toasts_def dispatched_def anonymous_world_def)

text \<open>
  Claim C6 as stated fails for \<^verbatim>\<open>login\<close> of the provider: called with a malformed
  email and an empty password it posts them to \<^verbatim>\<open>/auth/login\<close>.
\<close>

theorem login_skips_validation_counterexample:
  "map (\<lambda>q. (req_method q, url q, req_data q))
     (dispatched (snd (snd (login stub_login stub_stringify ''bad'' []
        (anonymous_auth, anonymous_world)))))
   = [(POST, ''/auth/login'', Some [(''email'', ''bad''), (''password'', [])])]"
  unfolding stub_login_def
  by (simp add: login_Inr prepare_def request_interceptor_def anonymous_world_def
      dispatched_def)




text \<open>
  Claim C8, amended. In the browser \<^verbatim>\<open>logout\<close> of the provider sends no request: it
  removes the stored token and user, clears the default \<^verbatim>\<open>Authorization\<close> header and
  state of the provider, and pushes \<^verbatim>\<open>/login\<close>. \<^verbatim>\<open>handleLogout\<close> of the header sends a
  GET to \<^verbatim>\<open>/auth/logout\<close> and then, whatever the reply, empties local and session
  storage and ends with a navigation to \<^verbatim>\<open>/login\<close>; it has no error to pass on, and it
  leaves the default headers as they were.
\<close>

theorem logout_local_effects:
  assumes "has_window w"
  shows "(case logout (a, w) of
            (a', w') \<Rightarrow>
              getItem ''token'' (localStorage w') = None \<and>
              getItem ''user'' (localStorage w') = None \<and>
              defaults_headers_common w' ''Authorization'' = None \<and>
              navigations w' = navigations w @ [RouterPush ''/login''] \<and>
              dispatched w' = dispatched w \<and>
              auth_user a' = None \<and> auth_token a' = None) \<and>
         (let w' = header_handleLogout adapter w in
            map (\<lambda>q. (req_method q, url q)) (dispatched w')
              = map (\<lambda>q. (req_method q, url q)) (dispatched w) @ [(GET, ''/auth/logout'')] \<and>
            localStorage w' = Map.empty \<and> sessionStorage w' = Map.empty \<and>
            last (trace w') = LocationReplace ''/login'' \<and>
            defaults_headers_common w' = defaults_headers_common w)"
  by (simp add: logout_eq setAuthToken_header header_handleLogout_eq Let_def prepare_def
      request_interceptor_def split: sum.splits option.splits)

theorem logout_local_effects_witness:
  "has_window session_world \<and>
   getItem ''token'' (localStorage (snd (logout (anonymous_auth, session_world)))) = None \<and>
   defaults_headers_common (snd (logout (anonymous_auth, session_world))) ''Authorization''
     = None \<and>
   navigations (snd (logout (anonymous_auth, session_world))) = [RouterPush ''/login''] \<and>
   localStorage (header_handleLogout
     (\<lambda>q. Inl network_error :: AxiosError + unit AxiosResponse) session_world) ''token''
     = None \<and>
   last (trace (header_handleLogout
     (\<lambda>q. Inl network_error :: AxiosError + unit AxiosResponse) session_world))
     = LocationReplace ''/login''"
  using logout_local_effects
    [where w = session_world and a = anonymous_auth
       and adapter = "\<lambda>q. Inl network_error :: AxiosError + unit AxiosResponse"]
  by (simp add: session_world_def navigations_def split_beta Let_def)

text \<open>
  Claim C8 as stated fails on both paths: \<^verbatim>\<open>handleLogout\<close> of the header leaves the
  default \<^verbatim>\<open>Authorization\<close> header configured, and \<^verbatim>\<open>logout\<close> of the provider never
  calls the remote endpoint.
\<close>

theorem logout_paths_counterexample:
  "defaults_headers_common (header_handleLogout
     (\<lambda>q. Inl network_error :: AxiosError + unit AxiosResponse) session_world)
     ''Authorization'' = Some ''Bearer abc'' \<and>
   dispatched (snd (logout (anonymous_auth, session_world))) = []"
  by (simp add: header_handleLogout_eq Let_def logout_eq) (simp add: session_world_def)

section \<open>The profile shown by the header and the sidebar\<close>

text \<open>
  Claim C10. When the request for \<^verbatim>\<open>/auth/profile\<close> fails with anything but a 401, the
  header and the sidebar log the error to the console and nothing else (no toast, no
  navigation, local storage untouched), and show a hardcoded user: \<^verbatim>\<open>Admin User\<close> in
  the header, \<^verbatim>\<open>Dummy User\<close> in the sidebar.
\<close>

theorem profile_failure_shows_placeholder:
  assumes "response_status err \<noteq> Some 401"
  shows "(case header_fetchUserProfile (\<lambda>q. Inl err) now (h, w) of
            (h', w') \<Rightarrow>
              userData h' = Some (header_default_user now) \<and>
              ud_name (header_default_user now) = ''Admin User'' \<and>
              header_loading h' = False \<and>
              trace w' = trace w @
                [Dispatch (prepare w GET ''/auth/profile'' None None (cache_headers None)),
                 ConsoleError ''GET Error:'', ConsoleError ''Failed to fetch user profile:''] \<and>
              localStorage w' = localStorage w) \<and>
         (case sidebar_fetchUserProfile (\<lambda>q. Inl err) (s, w) of
            (s', w') \<Rightarrow>
              sidebar_user s' = Some sidebar_dummy_user \<and>
              up_name sidebar_dummy_user = ''Dummy User'' \<and>
              sidebar_loading s' = False \<and>
              trace w' = trace w @
                [Dispatch (prepare w GET ''/auth/profile'' None None (cache_headers None)),
                 ConsoleError ''GET Error:'', ConsoleError ''Profile fetch error:'',
                 ConsoleError ''Failed to fetch profile:''] \<and>
              localStorage w' = localStorage w)"
  using assms
  by (simp add: header_fetchUserProfile_def sidebar_fetchUserProfile_def getProfile_def
      fetchData_eq Let_def response_rejected_eq session_expired_def header_default_user_def
      sidebar_dummy_user_def)

theorem profile_failure_shows_placeholder_witness:
  "response_status server_error \<noteq> Some 401 \<and>
   map_option ud_name (userData (fst (header_fetchUserProfile (\<lambda>q. Inl server_error)
      ''2026-01-01T00:00:00.000Z''
      (\<lparr>userData = None, header_loading = True\<rparr>, session_world)))) = Some ''Admin User'' \<and>
   map_option up_name (sidebar_user (fst (sidebar_fetchUserProfile (\<lambda>q. Inl server_error)
      (\<lparr>sidebar_user = None, sidebar_loading = True, showProfileModal = False\<rparr>,
       session_world)))) = Some ''Dummy User'' \<and>
   toasts (snd (header_fetchUserProfile (\<lambda>q. Inl server_error) ''2026-01-01T00:00:00.000Z''
      (\<lparr>userData = None, header_loading = True\<rparr>, session_world))) = [] \<and>
   navigations (snd (sidebar_fetchUserProfile (\<lambda>q. Inl server_error)
      (\<lparr>sidebar_user = None, sidebar_loading = True, showProfileModal = False\<rparr>,
       session_world))) = []"
  using profile_failure_shows_placeholder
    [where err = server_error and now = "''2026-01-01T00:00:00.000Z''"
       and h = "\<lparr>userData = None, header_loading = True\<rparr>"
       and s = "\<lparr>sidebar_user = None, sidebar_loading = True, showProfileModal = False\<rparr>"
       and w = session_world]
  by (simp add: server_error_def response_status_def split_beta toasts_def navigations_def
      session_world_def)

end
